theory Spec2Isabelle
  imports Complex_Main
begin

section \<open>Shared vocabulary\<close>

text \<open>
  The embedding follows \<^verbatim>\<open>src/thermal.py\<close>. Python floats are read as real numbers
  (the special values inf and nan have no counterpart and are named where the source can
  produce them), \<^verbatim>\<open>None\<close> is \<open>None\<close> of an option type, and every effect of a
  method (a callback invocation, a write to an actuator, a line printed to a log) is an
  entry of the list of events the method returns next to the updated object.
\<close>

datatype error = TypeError | AttributeError | IndexError | ValueError

text \<open>
  The name of a log file, \<^verbatim>\<open>'{}{}{}.csv'.format(prefix, timestamp(start_time), suffix)\<close>:
  the ISO rendering of the time stamp is left to the reader of the name.
\<close>

datatype log_name = Csv_name string real string

datatype sink = Log_file log_name | Stdout

datatype event =
    After_setpoint_change "real option"
  | Set_state nat "real option"
  | Logging_to log_name
  | Header_row sink string
  | Record_row sink real string
  | Closed sink

section \<open>Feedback control: class Control and its three subclasses\<close>

text \<open>
  The delegate of \<^verbatim>\<open>PIDControl\<close> is an object of the external library
  \<^verbatim>\<open>simple_pid\<close>. Its configuration is the record below; what a call of the
  delegate returns, and how it moves the delegate's memory \<open>internal\<close>, is a parameter
  \<open>call\<close> of every function that reaches it.
\<close>

record 'p PID =
  Kp :: real
  Ki :: real
  Kd :: real
  pid_setpoint :: "real option"
  sample_time :: "real option"
  output_limits :: "real \<times> real"
  proportional_on_measurement :: bool
  internal :: 'p

type_synonym 'p pid_call = "'p PID \<Rightarrow> real \<Rightarrow> real option \<times> 'p PID"

datatype 'p variant =
    InfiniteGainControl
  | ProportionalControl (gain: real)
  | PIDControl (pid: "'p PID")

text \<open>
  \<open>after_setpoint_change\<close> tells whether a callable is installed in the attribute of that
  name; an invocation of it is the event \<open>After_setpoint_change\<close>.
\<close>

record 'p control =
  setpoint :: "real option"
  min_output :: real
  max_output :: real
  after_setpoint_change :: bool
  setpoint_reached :: "bool option"
  setpoint_reached_epsilon :: real
  output_increases_pv :: bool
  enabled :: bool
  variant :: "'p variant"

definition Control_init ::
  "'p variant \<Rightarrow> real option \<Rightarrow> real \<Rightarrow> real \<Rightarrow> real \<Rightarrow> bool \<Rightarrow> 'p control" where
  "Control_init v initial_setpoint lo hi eps increases =
     \<lparr> setpoint = initial_setpoint, min_output = lo, max_output = hi,
       after_setpoint_change = False, setpoint_reached = Some False,
       setpoint_reached_epsilon = eps, output_increases_pv = increases,
       enabled = True, variant = v \<rparr>"

definition PIDControl_init ::
  "real \<Rightarrow> real \<Rightarrow> real \<Rightarrow> real option \<Rightarrow> bool \<Rightarrow> 'p \<Rightarrow>
   real option \<Rightarrow> real \<Rightarrow> real \<Rightarrow> real \<Rightarrow> bool \<Rightarrow> 'p control" where
  "PIDControl_init kp ki kd st pom mem initial_setpoint lo hi eps increases =
     Control_init
       (PIDControl \<lparr> Kp = kp, Ki = ki, Kd = kd, pid_setpoint = initial_setpoint,
                     sample_time = st, output_limits = (lo, hi),
                     proportional_on_measurement = pom, internal = mem \<rparr>)
       initial_setpoint lo hi eps increases"

definition reset_setpoint_reached :: "'p control \<Rightarrow> 'p control" where
  "reset_setpoint_reached c = c\<lparr>setpoint_reached := Some False\<rparr>"

definition Control_set_setpoint :: "'p control \<Rightarrow> real option \<Rightarrow> 'p control \<times> event list" where
  "Control_set_setpoint c v =
     (if v = setpoint c then (c, [])
      else (reset_setpoint_reached (c\<lparr>setpoint := v\<rparr>),
            if after_setpoint_change c then [After_setpoint_change v] else []))"

definition PIDControl_set_setpoint :: "'p control \<Rightarrow> real option \<Rightarrow> 'p control \<times> event list" where
  "PIDControl_set_setpoint c v =
     (let (c1, evs) = Control_set_setpoint c v
      in (case (setpoint c1, variant c1) of
            (Some s, PIDControl p) \<Rightarrow> (c1\<lparr>variant := PIDControl (p\<lparr>pid_setpoint := Some s\<rparr>)\<rparr>, evs)
          | _ \<Rightarrow> (c1, evs)))"

text \<open>Method dispatch: only \<^verbatim>\<open>PIDControl\<close> overrides \<^verbatim>\<open>set_setpoint\<close>.\<close>

definition set_setpoint :: "'p control \<Rightarrow> real option \<Rightarrow> 'p control \<times> event list" where
  "set_setpoint c v =
     (case variant c of
        PIDControl p \<Rightarrow> PIDControl_set_setpoint c v
      | _ \<Rightarrow> Control_set_setpoint c v)"

definition enable :: "'p control \<Rightarrow> 'p control" where
  "enable c = c\<lparr>enabled := True\<rparr>"

definition disable :: "'p control \<Rightarrow> 'p control" where
  "disable c = c\<lparr>enabled := False\<rparr>"

definition compute_error :: "'p control \<Rightarrow> real option \<Rightarrow> real option" where
  "compute_error c measurement =
     (case (setpoint c, measurement) of
        (Some s, Some m) \<Rightarrow> Some (s - m)
      | _ \<Rightarrow> None)"

definition compute_setpoint_reached :: "'p control \<Rightarrow> real option \<Rightarrow> bool option" where
  "compute_setpoint_reached c measurement =
     (case compute_error c measurement of
        None \<Rightarrow> None
      | Some e \<Rightarrow> Some (\<bar>e\<bar> < setpoint_reached_epsilon c))"

definition clamp_output :: "'p control \<Rightarrow> real \<Rightarrow> real" where
  "clamp_output c output = max (min_output c) (min (max_output c) output)"

text \<open>\<^verbatim>\<open>Control.update\<close>: the latch moves to true on a truthy test only.\<close>

definition update :: "'p control \<Rightarrow> real option \<Rightarrow> 'p control" where
  "update c measurement =
     (if setpoint c = None then c\<lparr>setpoint_reached := None\<rparr>
      else if compute_setpoint_reached c measurement = Some True
           then c\<lparr>setpoint_reached := Some True\<rparr>
           else c)"

definition InfiniteGainControl_compute_control_effort ::
  "'p control \<Rightarrow> real option \<Rightarrow> real option" where
  "InfiniteGainControl_compute_control_effort c measurement =
     (if setpoint c = None \<or> \<not> enabled c then Some 0
      else if measurement = None then None
      else case compute_error c measurement of
        None \<Rightarrow> None
      | Some e \<Rightarrow>
          (if output_increases_pv c
           then (if e > 0 then Some (max_output c) else Some (min_output c))
           else (if e < 0 then Some (max_output c) else Some (min_output c))))"

definition ProportionalControl_compute_control_effort ::
  "real \<Rightarrow> 'p control \<Rightarrow> real option \<Rightarrow> real option" where
  "ProportionalControl_compute_control_effort g c measurement =
     (if setpoint c = None \<or> \<not> enabled c then Some 0
      else if measurement = None then None
      else case compute_error c measurement of
        None \<Rightarrow> None
      | Some e \<Rightarrow>
          Some (clamp_output c ((if output_increases_pv c then g else - g) * e)))"

definition PIDControl_compute_control_effort ::
  "'p pid_call \<Rightarrow> 'p PID \<Rightarrow> 'p control \<Rightarrow> real option \<Rightarrow> real option \<times> 'p control" where
  "PIDControl_compute_control_effort call p c measurement =
     (case measurement of
        None \<Rightarrow> (None, c)
      | Some m \<Rightarrow>
          (if setpoint c = None \<or> \<not> enabled c then (Some 0, c)
           else (let (effort, p') = call p m in (effort, c\<lparr>variant := PIDControl p'\<rparr>))))"

text \<open>
  Method dispatch of \<^verbatim>\<open>compute_control_effort\<close>. Only the PID variant changes the
  object (the memory of its delegate).
\<close>

definition compute_control_effort ::
  "'p pid_call \<Rightarrow> 'p control \<Rightarrow> real option \<Rightarrow> real option \<times> 'p control" where
  "compute_control_effort call c measurement =
     (case variant c of
        InfiniteGainControl \<Rightarrow> (InfiniteGainControl_compute_control_effort c measurement, c)
      | ProportionalControl g \<Rightarrow> (ProportionalControl_compute_control_effort g c measurement, c)
      | PIDControl p \<Rightarrow> PIDControl_compute_control_effort call p c measurement)"

section \<open>Thermistor\<close>

text \<open>
  The two raw pin readings of \<^verbatim>\<open>read_voltage\<close> are arguments \<open>ref\<close> and \<open>raw\<close>.
  \<^verbatim>\<open>np.log\<close> of a number that is not positive is \<^verbatim>\<open>-inf\<close> or \<^verbatim>\<open>nan\<close>, and
  numpy's division by zero is \<^verbatim>\<open>inf\<close>: a result that depends on one of them is
  \<open>Not_real\<close>.
\<close>

datatype float_value = Real_value real | Not_real

record thermistor =
  reading :: "real option"
  referenced_reading :: "real option"
  bias_resistance :: real
  coeff_A :: real
  coeff_B :: real
  coeff_C :: real

definition Thermistor_init :: "real \<Rightarrow> real \<Rightarrow> real \<Rightarrow> real \<Rightarrow> thermistor" where
  "Thermistor_init bias a b c =
     \<lparr> reading = None, referenced_reading = None, bias_resistance = bias,
       coeff_A = a, coeff_B = b, coeff_C = c \<rparr>"

definition read_voltage :: "thermistor \<Rightarrow> real \<Rightarrow> real \<Rightarrow> thermistor \<times> (real \<times> real)" where
  "read_voltage th ref raw =
     (th\<lparr>reading := Some raw, referenced_reading := Some (ref - raw)\<rparr>, (raw, ref - raw))"

definition read_resistance :: "thermistor \<Rightarrow> real \<Rightarrow> real \<Rightarrow> thermistor \<times> real option" where
  "read_resistance th ref raw =
     (let (th', (rd, rr)) = read_voltage th ref raw
      in (th', if rr \<le> 0 then None else Some (rd * bias_resistance th' / rr)))"

definition steinhart_hart_denominator :: "thermistor \<Rightarrow> real \<Rightarrow> real" where
  "steinhart_hart_denominator th R = coeff_A th + coeff_B th * ln R + coeff_C th * (ln R) ^ 3"

definition Thermistor_read ::
  "thermistor \<Rightarrow> string \<Rightarrow> real \<Rightarrow> real \<Rightarrow> thermistor \<times> (error + float_value option)" where
  "Thermistor_read th unit ref raw =
     (let (th', res) = read_resistance th ref raw
      in (th',
          case res of
            None \<Rightarrow> Inr None
          | Some R \<Rightarrow>
              (let T_Kelvin =
                     (if R > 0 \<and> steinhart_hart_denominator th' R \<noteq> 0
                      then Real_value (1 / steinhart_hart_denominator th' R)
                      else Not_real)
               in if unit = ''K'' then Inr (Some T_Kelvin)
                  else if unit = ''C''
                  then Inr (Some (case T_Kelvin of
                                    Real_value t \<Rightarrow> Real_value (t - 273.15)
                                  | Not_real \<Rightarrow> Not_real))
                  else Inl ValueError)))"

section \<open>ControllerReporter\<close>

text \<open>
  \<^verbatim>\<open>'{:.Nf}'.format(x)\<close> on the real number \<open>x\<close>: the decimal expansion rounded to
  \<open>d\<close> places, a tie going to the even digit, with the sign of \<open>x\<close>.
\<close>

definition round_half_even :: "real \<Rightarrow> int" where
  "round_half_even y =
     (let f = \<lfloor>y\<rfloor>; r = y - of_int f
      in if r < 1 / 2 then f else if r > 1 / 2 then f + 1 else if even f then f else f + 1)"

fun digits :: "nat \<Rightarrow> string" where
  "digits n =
     (if n < 10 then [''0123456789'' ! n] else digits (n div 10) @ [''0123456789'' ! (n mod 10)])"

definition format_f :: "nat \<Rightarrow> real \<Rightarrow> string" where
  "format_f d x =
     (let n = nat (round_half_even (\<bar>x\<bar> * 10 ^ d));
          fp = digits (n mod 10 ^ d)
      in (if x < 0 then ''-'' else '''') @ digits (n div 10 ^ d) @
         (if d = 0 then '''' else ''.'' @ replicate (d - length fp) (CHR ''0'') @ fp))"

fun join :: "string \<Rightarrow> string list \<Rightarrow> string" where
  "join sep [] = ''''"
| "join sep [x] = x"
| "join sep (x # y # ys) = x @ sep @ join sep (y # ys)"

text \<open>
  \<open>printer\<close> tells the subclass \<^verbatim>\<open>ControllerPrinter\<close>, which overrides
  \<^verbatim>\<open>open_report\<close> and \<^verbatim>\<open>close_report\<close>.
\<close>

record reporter =
  interval :: real
  start_time :: "real option"
  next_report_index :: "int option"
  reporter_enabled :: bool
  process_variable :: string
  process_variable_units :: string
  control_efforts :: "string list"
  "file_prefix" :: string
  file_suffix :: string
  log_file :: "sink option"
  printer :: bool

definition ControllerReporter_init ::
  "real \<Rightarrow> string \<Rightarrow> string \<Rightarrow> string list \<Rightarrow> string \<Rightarrow> string \<Rightarrow> reporter" where
  "ControllerReporter_init iv pv units efforts prefix suffix =
     \<lparr> interval = iv, start_time = None, next_report_index = None,
       reporter_enabled = False, process_variable = pv, process_variable_units = units,
       control_efforts = efforts, file_prefix = prefix, file_suffix = suffix,
       log_file = None, printer = False \<rparr>"

definition ControllerPrinter_init :: "real \<Rightarrow> string list \<Rightarrow> reporter" where
  "ControllerPrinter_init iv efforts =
     (ControllerReporter_init iv ''Temperature'' ''deg C'' efforts '''' '''')\<lparr>printer := True\<rparr>"

definition reporter_enable :: "reporter \<Rightarrow> reporter" where
  "reporter_enable r = r\<lparr>reporter_enabled := True\<rparr>"

definition reporter_disable :: "reporter \<Rightarrow> reporter" where
  "reporter_disable r = r\<lparr>reporter_enabled := False\<rparr>"

definition close_report :: "reporter \<Rightarrow> reporter \<times> event list" where
  "close_report r =
     (if printer r then (r, [])
      else case log_file r of
        None \<Rightarrow> (r, [])
      | Some f \<Rightarrow> (r\<lparr>log_file := None\<rparr>, [Closed f]))"

definition reset :: "reporter \<Rightarrow> reporter \<times> event list" where
  "reset r =
     (let (r', evs) = close_report (r\<lparr>start_time := None, next_report_index := None\<rparr>)
      in (reporter_enable r', evs))"

definition generate_filename :: "reporter \<Rightarrow> error + log_name" where
  "generate_filename r =
     (case start_time r of
        None \<Rightarrow> Inl TypeError
      | Some t \<Rightarrow> Inr (Csv_name (file_prefix r) t (file_suffix r)))"

definition open_report :: "reporter \<Rightarrow> error + reporter \<times> event list" where
  "open_report r =
     (if printer r then Inr (r\<lparr>log_file := Some Stdout\<rparr>, [])
      else case generate_filename r of
        Inl e \<Rightarrow> Inl e
      | Inr name \<Rightarrow> Inr (r\<lparr>log_file := Some (Log_file name)\<rparr>, [Logging_to name]))"

definition header_string :: "reporter \<Rightarrow> string" where
  "header_string r =
     ''Time (s),'' @ process_variable r @ '' ('' @ process_variable_units r @ ''),Setpoint ('' @
     process_variable_units r @ ''),Error ('' @ process_variable_units r @ ''),'' @
     (if control_efforts r \<noteq> [] then join '','' (control_efforts r) @ '','' else '''') @
     ''Setpoint Reached''"

definition report_header :: "reporter \<Rightarrow> error + event list" where
  "report_header r =
     (case log_file r of
        None \<Rightarrow> Inl AttributeError
      | Some f \<Rightarrow> Inr [Header_row f (header_string r)])"

definition format_control_efforts :: "real option list \<Rightarrow> string" where
  "format_control_efforts efforts =
     join '','' (map (\<lambda>effort. case effort of None \<Rightarrow> '''' | Some x \<Rightarrow> format_f 2 x) efforts)"

definition report_string ::
  "real \<Rightarrow> real \<Rightarrow> real option \<Rightarrow> bool option \<Rightarrow> real option list \<Rightarrow> string" where
  "report_string elapsed pv sp reached efforts =
     (let err = (case sp of None \<Rightarrow> None | Some s \<Rightarrow> Some (s - pv));
          control_efforts_string = format_control_efforts efforts
      in format_f 2 elapsed @ '','' @ format_f 1 pv @ '','' @
         (case sp of None \<Rightarrow> '''' | Some s \<Rightarrow> format_f 1 s) @ '','' @
         (case err of None \<Rightarrow> '''' | Some e \<Rightarrow> format_f 1 e) @ '','' @
         (if control_efforts_string \<noteq> '''' then control_efforts_string @ '','' else '''') @
         (case reached of None \<Rightarrow> '''' | Some b \<Rightarrow> if b then ''True'' else ''False''))"

definition report ::
  "reporter \<Rightarrow> real \<Rightarrow> real \<Rightarrow> real option \<Rightarrow> bool option \<Rightarrow> real option list \<Rightarrow>
   error + event list" where
  "report r report_time pv sp reached efforts =
     (case start_time r of
        None \<Rightarrow> Inl TypeError
      | Some st \<Rightarrow>
          (case log_file r of
             None \<Rightarrow> Inl AttributeError
           | Some f \<Rightarrow>
               Inr [Record_row f report_time
                      (report_string (report_time - st) pv sp reached efforts)]))"

text \<open>
  \<^verbatim>\<open>ControllerReporter.update\<close>; \<open>now\<close> is what \<^verbatim>\<open>time.time()\<close> returns in this call.
  \<open>arm\<close> is the branch of the first accepted sample.
\<close>

definition arm :: "reporter \<Rightarrow> real \<Rightarrow> error + reporter \<times> event list" where
  "arm r now =
     (case next_report_index r of
        Some i \<Rightarrow> Inr (r, [])
      | None \<Rightarrow>
          (case open_report (r\<lparr>start_time := Some now, next_report_index := Some 0\<rparr>) of
             Inl e \<Rightarrow> Inl e
           | Inr (r1, evs1) \<Rightarrow>
               (case report_header r1 of
                  Inl e \<Rightarrow> Inl e
                | Inr evs2 \<Rightarrow> Inr (r1, evs1 @ evs2))))"

definition reporter_update ::
  "reporter \<Rightarrow> real \<Rightarrow> real option \<Rightarrow> real option \<Rightarrow> bool option \<Rightarrow> real option list \<Rightarrow>
   error + reporter \<times> event list" where
  "reporter_update r now pv sp reached efforts =
     (if \<not> reporter_enabled r \<or> pv = None then Inr (r, [])
      else case arm r now of
        Inl e \<Rightarrow> Inl e
      | Inr (r1, evs1) \<Rightarrow>
          (case (next_report_index r1, start_time r1) of
             (Some i, Some st) \<Rightarrow>
               (if now \<ge> of_int i * interval r1 + st
                then (case report r1 now (the pv) sp reached efforts of
                        Inl e \<Rightarrow> Inl e
                      | Inr evs2 \<Rightarrow> Inr (r1\<lparr>next_report_index := Some (i + 1)\<rparr>, evs1 @ evs2))
                else Inr (r1, evs1))
           | _ \<Rightarrow> Inl TypeError))"

section \<open>Controller, HeaterController, HeaterFanController\<close>

text \<open>
  A controller holds references to its \<^verbatim>\<open>Control\<close> objects, and
  \<^verbatim>\<open>HeaterFanController\<close> holds its fan control a second time in an attribute of its
  own: the controls live in a heap, and the controller holds their addresses. Actuators are
  known by a number, and \<^verbatim>\<open>output.set_state(effort)\<close> is the event \<open>Set_state\<close>.
  The three lists of reporters of the source hold the same objects and are one list here;
  an entry \<open>None\<close> is a reporter that was not given.
\<close>

type_synonym 'p heap = "nat \<Rightarrow> 'p control"

record controller =
  controls :: "nat list"
  outputs :: "nat list"
  reporters :: "reporter option list"

definition Controller_init ::
  "string list \<Rightarrow> nat list \<Rightarrow> nat list \<Rightarrow> reporter option list \<Rightarrow> controller" where
  "Controller_init output_effort_names cs os rs =
     \<lparr> controls = cs, outputs = os,
       reporters = map (map_option (\<lambda>r. r\<lparr>control_efforts := output_effort_names\<rparr>)) rs \<rparr>"

fun set_setpoint_each :: "'p heap \<Rightarrow> nat list \<Rightarrow> real option \<Rightarrow> 'p heap \<times> event list" where
  "set_setpoint_each h [] v = (h, [])"
| "set_setpoint_each h (a # as) v =
     (let (c, evs1) = set_setpoint (h a) v;
          (h', evs2) = set_setpoint_each (h(a := c)) as v
      in (h', evs1 @ evs2))"

definition Controller_set_setpoint ::
  "'p heap \<Rightarrow> 'a controller_scheme \<Rightarrow> real option \<Rightarrow> 'p heap \<times> event list" where
  "Controller_set_setpoint h ctl v = set_setpoint_each h (controls ctl) v"

definition Controller_setpoint_reached ::
  "'p heap \<Rightarrow> 'a controller_scheme \<Rightarrow> error + bool option" where
  "Controller_setpoint_reached h ctl =
     (case controls ctl of [] \<Rightarrow> Inl IndexError | a # as \<Rightarrow> Inr (setpoint_reached (h a)))"

fun reset_each :: "reporter option list \<Rightarrow> reporter option list \<times> event list" where
  "reset_each [] = ([], [])"
| "reset_each (None # rs) = (let (rs', evs) = reset_each rs in (None # rs', evs))"
| "reset_each (Some r # rs) =
     (let (r', evs1) = reset r; (rs', evs2) = reset_each rs in (Some r' # rs', evs1 @ evs2))"

definition reset_reporters :: "'a controller_scheme \<Rightarrow> 'a controller_scheme \<times> event list" where
  "reset_reporters ctl =
     (let (rs, evs) = reset_each (reporters ctl) in (ctl\<lparr>reporters := rs\<rparr>, evs))"

definition enable_reporters :: "'a controller_scheme \<Rightarrow> 'a controller_scheme" where
  "enable_reporters ctl = ctl\<lparr>reporters := map (map_option reporter_enable) (reporters ctl)\<rparr>"

definition disable_reporters :: "'a controller_scheme \<Rightarrow> 'a controller_scheme" where
  "disable_reporters ctl = ctl\<lparr>reporters := map (map_option reporter_disable) (reporters ctl)\<rparr>"

definition reset_controls :: "'p heap \<Rightarrow> 'a controller_scheme \<Rightarrow> 'p heap" where
  "reset_controls h ctl = fold (\<lambda>a h'. h'(a := reset_setpoint_reached (h' a))) (controls ctl) h"

definition Controller_reset ::
  "'p heap \<Rightarrow> 'a controller_scheme \<Rightarrow> 'p heap \<times> 'a controller_scheme \<times> event list" where
  "Controller_reset h ctl =
     (let (ctl', evs) = reset_reporters ctl in (reset_controls h ctl', ctl', evs))"






record heater_controller = controller +
  heater :: nat
  heater_control :: nat

record heater_fan_controller = heater_controller +
  fan :: nat
  fan_control :: nat
  fan_setpoint_offset :: real

definition HeaterFanController_init ::
  "nat \<Rightarrow> nat \<Rightarrow> nat \<Rightarrow> nat \<Rightarrow> real \<Rightarrow> nat list \<Rightarrow> nat list \<Rightarrow>
   reporter option \<Rightarrow> reporter option \<Rightarrow> heater_fan_controller" where
  "HeaterFanController_init hc hout fc fout offset additional_controls additional_outputs
     file_reporter print_reporter =
     (let base = Controller_init [''Heater PWM Duty'', ''Fan PWM Duty'']
                   (hc # fc # additional_controls) (hout # fout # additional_outputs)
                   [file_reporter, print_reporter]
      in \<lparr> controls = controls base, outputs = outputs base, reporters = reporters base,
           heater = hout, heater_control = hc,
           fan = fout, fan_control = fc, fan_setpoint_offset = offset \<rparr>)"

definition HeaterFanController_set_setpoint ::
  "'p heap \<Rightarrow> 'a heater_fan_controller_scheme \<Rightarrow> real option \<Rightarrow> 'p heap \<times> event list" where
  "HeaterFanController_set_setpoint h ctl v =
     (let (h1, evs1) = Controller_set_setpoint h ctl v
      in case v of
           None \<Rightarrow> (h1, evs1)
         | Some s \<Rightarrow>
             (let (c, evs2) = set_setpoint (h1 (fan_control ctl)) (Some (s + fan_setpoint_offset ctl))
              in (h1(fan_control ctl := c), evs1 @ evs2)))"

definition HeaterFanController_setpoint_reached ::
  "'p heap \<Rightarrow> 'a heater_fan_controller_scheme \<Rightarrow> bool option" where
  "HeaterFanController_setpoint_reached h ctl = setpoint_reached (h (heater_control ctl))"

section \<open>Runs, invariants and example objects\<close>

text \<open>
  A call of \<^verbatim>\<open>ControllerReporter.update\<close> with the clock value it reads, and a
  sequence of such calls on one reporter; the first exception ends the run.
\<close>

type_synonym sample = "real \<times> real option \<times> real option \<times> bool option \<times> real option list"

fun run_updates :: "reporter \<Rightarrow> sample list \<Rightarrow> error + reporter \<times> event list" where
  "run_updates r [] = Inr (r, [])"
| "run_updates r ((now, pv, sp, reached, efforts) # calls) =
     (case reporter_update r now pv sp reached efforts of
        Inl e \<Rightarrow> Inl e
      | Inr (r1, evs1) \<Rightarrow>
          (case run_updates r1 calls of
             Inl e \<Rightarrow> Inl e
           | Inr (r2, evs2) \<Rightarrow> Inr (r2, evs1 @ evs2)))"

text \<open>The \<^verbatim>\<open>report_time\<close> of every record among the events, in the order of emission.\<close>

fun record_times :: "event list \<Rightarrow> real list" where
  "record_times [] = []"
| "record_times (Record_row f t s # evs) = t # record_times evs"
| "record_times (ev # evs) = record_times evs"

definition emitted_times :: "reporter \<Rightarrow> sample list \<Rightarrow> real list" where
  "emitted_times r calls =
     (case run_updates r calls of Inl e \<Rightarrow> [] | Inr (r', evs) \<Rightarrow> record_times evs)"

text \<open>
  What the constructor and the methods of a reporter keep true: an armed reporter has a
  start time and an open sink.
\<close>

definition reporter_ok :: "reporter \<Rightarrow> bool" where
  "reporter_ok r =
     (case next_report_index r of
        None \<Rightarrow> True
      | Some i \<Rightarrow> start_time r \<noteq> None \<and> log_file r \<noteq> None)"

text \<open>
  What the constructor and \<^verbatim>\<open>set_setpoint\<close> of \<^verbatim>\<open>PIDControl\<close> keep true: a present
  setpoint is also the setpoint of the delegate.
\<close>

definition pid_in_step :: "'p control \<Rightarrow> bool" where
  "pid_in_step c =
     (case (variant c, setpoint c) of
        (PIDControl p, Some s) \<Rightarrow> pid_setpoint p = Some s
      | _ \<Rightarrow> True)"

text \<open>
  What the constructor of \<^verbatim>\<open>PIDControl\<close> sets up and no method changes: the output
  limits of the delegate are the bounds of the control.
\<close>

definition limits_wired :: "'p control \<Rightarrow> bool" where
  "limits_wired c =
     (case variant c of
        PIDControl p \<Rightarrow> output_limits p = (min_output c, max_output c)
      | _ \<Rightarrow> True)"

text \<open>
  A delegate for the examples: the proportional term alone, held within the delegate's
  output limits; it keeps no memory.
\<close>

definition proportional_delegate :: "unit pid_call" where
  "proportional_delegate p m =
     (case pid_setpoint p of
        None \<Rightarrow> (None, p)
      | Some s \<Rightarrow>
          (Some (max (fst (output_limits p)) (min (snd (output_limits p)) (Kp p * (s - m)))), p))"

text \<open>A heap whose every cell holds a freshly constructed infinite-gain control.\<close>

definition fresh_heap :: "unit heap" where
  "fresh_heap a = Control_init InfiniteGainControl None 0 1 0 True"


text \<open>
  The reporter of the examples, enabled, and a call of its \<^verbatim>\<open>update\<close> at clock time
  \<open>t\<close> with the measurement 25, the setpoint 30 and one effort.
\<close>

definition example_reporter :: reporter where
  "example_reporter =
     reporter_enable
       (ControllerReporter_init (1 / 2) ''Temperature'' ''deg C'' [''Thermal Control Effort'']
          '''' '''')"

definition sample_at :: "real \<Rightarrow> sample" where
  "sample_at t = (t, Some 25, Some 30, Some False, [Some 1])"

section \<open>Control efforts\<close>

lemma clamp_output_bounds:
  "min_output c \<le> max_output c \<Longrightarrow>
   min_output c \<le> clamp_output c x \<and> clamp_output c x \<le> max_output c"
  by (simp add: clamp_output_def)

lemma PIDControl_init_wired:
  "limits_wired (PIDControl_init kp ki kd st pom mem initial_setpoint lo hi eps increases)"
  by (simp add: limits_wired_def PIDControl_init_def Control_init_def)

lemma set_setpoint_wired: "limits_wired c \<Longrightarrow> limits_wired (fst (set_setpoint c v))"
  by (cases "variant c"; cases v)
     (auto simp: limits_wired_def set_setpoint_def PIDControl_set_setpoint_def
       Control_set_setpoint_def reset_setpoint_reached_def split: option.splits variant.splits)

lemma update_wired: "limits_wired c \<Longrightarrow> limits_wired (update c m)"
  by (auto simp: limits_wired_def update_def split: variant.splits)

lemma idle_effort:
  assumes "setpoint c = None \<or> \<not> enabled c"
  shows "fst (compute_control_effort call c measurement) =
           (case variant c of
              PIDControl p \<Rightarrow> (if measurement = None then None else Some 0)
            | _ \<Rightarrow> Some 0)"
  using assms
  by (auto simp: compute_control_effort_def PIDControl_compute_control_effort_def
      InfiniteGainControl_compute_control_effort_def
      ProportionalControl_compute_control_effort_def split: option.splits variant.splits)

text \<open>
  Claim C1, as the code has it. Take an effort, not absent, that
  \<^verbatim>\<open>compute_control_effort\<close> returns. If the control is enabled and has a setpoint, the
  effort lies between \<open>min_output\<close> and \<open>max_output\<close> when \<open>min_output \<le> max_output\<close>: the
  proportional variant clamps, the infinite-gain variant returns \<open>min_output\<close> or
  \<open>max_output\<close> and nothing else, and the PID variant returns what its delegate returns,
  which is within the bounds when the delegate keeps to its own output limits, since the
  constructor makes these the bounds of the control. If the control has no setpoint or is
  disabled, the effort is the number 0 whatever the bounds are, which is why the claim fails
  as stated.
\<close>

theorem effort_within_output_range:
  assumes eff: "fst (compute_control_effort call c measurement) = Some e"
  shows "(enabled c \<and> setpoint c \<noteq> None \<and> min_output c \<le> max_output c \<and> limits_wired c \<and>
          (\<forall>p m y. variant c = PIDControl p \<and> fst (call p m) = Some y \<longrightarrow>
                     fst (output_limits p) \<le> y \<and> y \<le> snd (output_limits p)) \<longrightarrow>
            min_output c \<le> e \<and> e \<le> max_output c) \<and>
         (enabled c \<and> setpoint c \<noteq> None \<and> variant c = InfiniteGainControl \<longrightarrow>
            e = min_output c \<or> e = max_output c) \<and>
         (setpoint c = None \<or> \<not> enabled c \<longrightarrow> e = 0)"
proof -
  have idle: "e = 0" if "setpoint c = None \<or> \<not> enabled c"
    using idle_effort[OF that, of call measurement] eff
    by (auto split: variant.splits if_splits)
  have exact: "e = min_output c \<or> e = max_output c"
    if "enabled c \<and> setpoint c \<noteq> None \<and> variant c = InfiniteGainControl"
    using that eff
    by (auto simp: compute_control_effort_def InfiniteGainControl_compute_control_effort_def
        split: if_splits option.splits)
  have bounds: "min_output c \<le> e \<and> e \<le> max_output c"
    if a: "enabled c \<and> setpoint c \<noteq> None \<and> min_output c \<le> max_output c \<and> limits_wired c \<and>
          (\<forall>p m y. variant c = PIDControl p \<and> fst (call p m) = Some y \<longrightarrow>
                     fst (output_limits p) \<le> y \<and> y \<le> snd (output_limits p))"
  proof (cases "variant c")
    case InfiniteGainControl
    with a eff show ?thesis
      by (auto simp: compute_control_effort_def InfiniteGainControl_compute_control_effort_def
          split: if_splits option.splits)
  next
    case (ProportionalControl g)
    with a eff show ?thesis
      by (auto simp: compute_control_effort_def ProportionalControl_compute_control_effort_def
          clamp_output_def split: if_splits option.splits)
  next
    case (PIDControl p)
    with a have lim: "output_limits p = (min_output c, max_output c)"
      by (simp add: limits_wired_def)
    show ?thesis
    proof (cases measurement)
      case None
      with PIDControl eff show ?thesis
        by (simp add: compute_control_effort_def PIDControl_compute_control_effort_def)
    next
      case (Some m)
      with PIDControl a eff have "fst (call p m) = Some e"
        by (auto simp: compute_control_effort_def PIDControl_compute_control_effort_def
            split: prod.splits)
      with a PIDControl have "fst (output_limits p) \<le> e \<and> e \<le> snd (output_limits p)"
        by blast
      with lim show ?thesis by simp
    qed
  qed
  from idle exact bounds show ?thesis by blast
qed

theorem effort_within_output_range_witness:
  "fst (compute_control_effort proportional_delegate
          (Control_init (ProportionalControl (1 / 10)) (Some 90) 0 1 0 True) (Some 85))
     = Some (1 / 2) \<and>
   min_output (Control_init (ProportionalControl (1 / 10)) (Some 90) 0 1 0 True :: unit control)
     \<le> 1 / 2 \<and>
   1 / 2 \<le>
     max_output (Control_init (ProportionalControl (1 / 10)) (Some 90) 0 1 0 True :: unit control) \<and>
   fst (compute_control_effort proportional_delegate
          (PIDControl_init 1 0 0 None False () (Some 90) 0 1 0 True) (Some 85)) = Some 1 \<and>
   min_output (PIDControl_init 1 0 0 None False () (Some 90) 0 1 0 True :: unit control) \<le> 1 \<and>
   1 \<le> max_output (PIDControl_init 1 0 0 None False () (Some 90) 0 1 0 True :: unit control) \<and>
   fst (compute_control_effort proportional_delegate
          (Control_init InfiniteGainControl (Some 90) (1 / 5) 1 0 True) (Some 95)) = Some (1 / 5) \<and>
   fst (compute_control_effort proportional_delegate
          (disable (Control_init (ProportionalControl (1 / 10)) (Some 90) (1 / 5) 1 0 True))
          (Some 85)) = Some 0"
proof -
  let ?c = "Control_init (ProportionalControl (1 / 10)) (Some 90) 0 1 0 True :: unit control"
  let ?d = "PIDControl_init 1 0 0 None False () (Some 90) 0 1 0 True :: unit control"
  let ?g = "Control_init InfiniteGainControl (Some 90) (1 / 5) 1 0 True :: unit control"
  let ?i = "disable (Control_init (ProportionalControl (1 / 10)) (Some 90) (1 / 5) 1 0 True)
              :: unit control"
  have e1: "fst (compute_control_effort proportional_delegate ?c (Some 85)) = Some (1 / 2)"
    by (simp add: compute_control_effort_def ProportionalControl_compute_control_effort_def
        Control_init_def compute_error_def clamp_output_def)
  have e2: "fst (compute_control_effort proportional_delegate ?d (Some 85)) = Some 1"
    by (simp add: compute_control_effort_def PIDControl_compute_control_effort_def
        PIDControl_init_def Control_init_def proportional_delegate_def)
  have e3: "fst (compute_control_effort proportional_delegate ?g (Some 95)) = Some (1 / 5)"
    by (simp add: compute_control_effort_def InfiniteGainControl_compute_control_effort_def
        Control_init_def compute_error_def)
  have c1: "enabled ?c \<and> setpoint ?c \<noteq> None \<and> min_output ?c \<le> max_output ?c \<and> limits_wired ?c \<and>
          (\<forall>p m y. variant ?c = PIDControl p \<and> fst (proportional_delegate p m) = Some y \<longrightarrow>
                     fst (output_limits p) \<le> y \<and> y \<le> snd (output_limits p))"
    by (simp add: Control_init_def limits_wired_def)
  have c2: "enabled ?d \<and> setpoint ?d \<noteq> None \<and> min_output ?d \<le> max_output ?d \<and> limits_wired ?d \<and>
          (\<forall>p m y. variant ?d = PIDControl p \<and> fst (proportional_delegate p m) = Some y \<longrightarrow>
                     fst (output_limits p) \<le> y \<and> y \<le> snd (output_limits p))"
    using PIDControl_init_wired[of 1 0 0 None False "()" "Some 90" 0 1 0 True]
    by (auto simp: PIDControl_init_def Control_init_def proportional_delegate_def
        split: option.splits)
  have c3: "enabled ?g \<and> setpoint ?g \<noteq> None \<and> variant ?g = InfiniteGainControl"
    by (simp add: Control_init_def)
  have c4: "setpoint ?i = None \<or> \<not> enabled ?i"
    by (simp add: disable_def)
  from effort_within_output_range[OF e1] c1
  have b1: "min_output ?c \<le> 1 / 2 \<and> 1 / 2 \<le> max_output ?c" by blast
  from effort_within_output_range[OF e2] c2
  have b2: "min_output ?d \<le> 1 \<and> 1 \<le> max_output ?d" by blast
  have "\<exists>e. fst (compute_control_effort proportional_delegate ?i (Some 85)) = Some e"
    by (simp add: compute_control_effort_def ProportionalControl_compute_control_effort_def
        Control_init_def disable_def)
  then obtain e where e4: "fst (compute_control_effort proportional_delegate ?i (Some 85)) = Some e"
    by blast
  from effort_within_output_range[OF e4] c4 have "e = 0" by blast
  with e4 have b4: "fst (compute_control_effort proportional_delegate ?i (Some 85)) = Some 0"
    by simp
  from effort_within_output_range[OF e3] c3
  have "1 / 5 = min_output ?g \<or> 1 / 5 = max_output ?g" by blast
  from e1 e2 e3 b1 b2 b4 show ?thesis by blast
qed

theorem effort_outside_output_range_counterexample:
  "fst (compute_control_effort proportional_delegate
          (Control_init InfiniteGainControl None (1 / 5) 1 0 True) (Some 25)) = Some 0 \<and>
   \<not> min_output (Control_init InfiniteGainControl None (1 / 5) 1 0 True :: unit control) \<le> 0"
  by (simp add: compute_control_effort_def InfiniteGainControl_compute_control_effort_def
      Control_init_def)




lemma disabled_effort:
  assumes "\<not> enabled c"
  shows "(variant c = InfiniteGainControl \<or> variant c = ProportionalControl g \<longrightarrow>
            compute_control_effort call c measurement = (Some 0, c)) \<and>
         (variant c = PIDControl p \<longrightarrow>
            compute_control_effort call c measurement =
              (if measurement = None then None else Some 0, c))"
  using assms
  by (auto simp: compute_control_effort_def PIDControl_compute_control_effort_def
      InfiniteGainControl_compute_control_effort_def
      ProportionalControl_compute_control_effort_def split: option.splits)

text \<open>
  Claim C3, at the input where the code departs from it. A disabled PID control given an
  absent measurement returns absent, not 0: \<^verbatim>\<open>PIDControl.compute_control_effort\<close> tests
  the measurement before the setpoint and the enabled flag. The infinite-gain and the
  proportional control, disabled and given the same absent measurement, run the two tests
  in the other order and return 0, as the claim says of every variant; a disabled PID
  control returns 0 as well once the measurement is present.
\<close>

theorem disabled_pid_absent_measurement:
  "fst (compute_control_effort proportional_delegate
          (disable (PIDControl_init 1 0 0 None False () (Some 90) 0 1 0 True)) None) = None \<and>
   fst (compute_control_effort proportional_delegate
          (disable (PIDControl_init 1 0 0 None False () (Some 90) 0 1 0 True)) (Some 85))
     = Some 0 \<and>
   fst (compute_control_effort proportional_delegate
          (disable (Control_init InfiniteGainControl (Some 90) 0 1 0 True)) None) = Some 0 \<and>
   fst (compute_control_effort proportional_delegate
          (disable (Control_init (ProportionalControl (1 / 10)) (Some 90) 0 1 0 True)) None)
     = Some 0"
  by (simp add: compute_control_effort_def PIDControl_compute_control_effort_def
      InfiniteGainControl_compute_control_effort_def
      ProportionalControl_compute_control_effort_def
      PIDControl_init_def Control_init_def disable_def)

section \<open>Setpoints and the reached latch\<close>

lemma update_keeps_latch:
  "setpoint c = Some s \<Longrightarrow> setpoint_reached c = Some True \<Longrightarrow>
   setpoint (update c m) = Some s \<and> setpoint_reached (update c m) = Some True"
  by (simp add: update_def)

text \<open>
  Claim C6. With a present setpoint, once \<open>setpoint_reached\<close> is true it is true after every
  sequence of \<^verbatim>\<open>update\<close> calls, whatever the measurements are (present, absent, far from
  the setpoint); the setpoint itself is not touched.
\<close>

theorem setpoint_reached_latches:
  assumes "setpoint c = Some s" and "setpoint_reached c = Some True"
  shows "setpoint_reached (foldl update c ms) = Some True \<and> setpoint (foldl update c ms) = Some s"
  using assms
proof (induction ms arbitrary: c)
  case Nil
  then show ?case by simp
next
  case (Cons m ms)
  from update_keeps_latch[OF Cons.prems] Cons.IH[of "update c m"] show ?case by simp
qed

theorem setpoint_reached_latches_witness:
  "setpoint_reached
     (update (Control_init InfiniteGainControl (Some 90) 0 1 (1 / 2) True :: unit control)
        (Some (449 / 5))) = Some True \<and>
   setpoint_reached
     (foldl update
        (update (Control_init InfiniteGainControl (Some 90) 0 1 (1 / 2) True :: unit control)
           (Some (449 / 5)))
        [Some 95, None, Some 20]) = Some True"
proof -
  let ?c = "update (Control_init InfiniteGainControl (Some 90) 0 1 (1 / 2) True)
              (Some (449 / 5)) :: unit control"
  have s: "setpoint ?c = Some 90" and l: "setpoint_reached ?c = Some True"
    by (simp_all add: update_def Control_init_def compute_setpoint_reached_def compute_error_def)
  from setpoint_reached_latches[OF s l, of "[Some 95, None, Some 20]"] l show ?thesis by blast
qed

text \<open>
  Claim C7, as the code has it. \<^verbatim>\<open>set_setpoint(v)\<close> with \<open>v\<close> equal to the current
  setpoint changes nothing and invokes no callback (for the PID variant: when the delegate
  already holds the setpoint, as it does after the constructor and after every
  \<^verbatim>\<open>set_setpoint\<close>). With a different \<open>v\<close> it stores \<open>v\<close>, sets the latch to false, also
  when \<open>v\<close> is absent, and invokes the callback once if one is installed and not at all
  otherwise.
\<close>

theorem set_setpoint_effect:
  "(v = setpoint c \<and> pid_in_step c \<longrightarrow> set_setpoint c v = (c, [])) \<and>
   (v \<noteq> setpoint c \<longrightarrow>
      setpoint (fst (set_setpoint c v)) = v \<and>
      setpoint_reached (fst (set_setpoint c v)) = Some False \<and>
      snd (set_setpoint c v) = (if after_setpoint_change c then [After_setpoint_change v] else []) \<and>
      pid_in_step (fst (set_setpoint c v)))"
  by (cases "variant c"; cases v)
     (auto simp: set_setpoint_def PIDControl_set_setpoint_def Control_set_setpoint_def
       reset_setpoint_reached_def pid_in_step_def split: option.splits variant.splits)

theorem set_setpoint_effect_witness:
  "set_setpoint (PIDControl_init 1 0 0 None False () (Some 90) 0 1 0 True) (Some 90)
     = (PIDControl_init 1 0 0 None False () (Some 90) 0 1 0 True, []) \<and>
   setpoint (fst (set_setpoint
       ((Control_init InfiniteGainControl (Some 90) 0 1 0 True :: unit control)
          \<lparr>after_setpoint_change := True\<rparr>)
       (Some 40))) = Some 40 \<and>
   setpoint_reached (fst (set_setpoint
       ((Control_init InfiniteGainControl (Some 90) 0 1 0 True :: unit control)
          \<lparr>after_setpoint_change := True\<rparr>)
       (Some 40))) = Some False \<and>
   snd (set_setpoint
       ((Control_init InfiniteGainControl (Some 90) 0 1 0 True :: unit control)
          \<lparr>after_setpoint_change := True\<rparr>)
       (Some 40)) = [After_setpoint_change (Some 40)]"
proof -
  let ?d = "PIDControl_init 1 0 0 None False () (Some 90) 0 1 0 True :: unit control"
  let ?c = "(Control_init InfiniteGainControl (Some 90) 0 1 0 True :: unit control)
              \<lparr>after_setpoint_change := True\<rparr>"
  have d: "Some 90 = setpoint ?d \<and> pid_in_step ?d"
    by (simp add: PIDControl_init_def Control_init_def pid_in_step_def)
  have c: "Some 40 \<noteq> setpoint ?c" "after_setpoint_change ?c"
    by (simp_all add: Control_init_def)
  from set_setpoint_effect[of "Some 90" ?d] d
  have 1: "set_setpoint ?d (Some 90) = (?d, [])" by blast
  from set_setpoint_effect[of "Some 40" ?c] c
  have 2: "setpoint (fst (set_setpoint ?c (Some 40))) = Some 40 \<and>
      setpoint_reached (fst (set_setpoint ?c (Some 40))) = Some False \<and>
      snd (set_setpoint ?c (Some 40)) = [After_setpoint_change (Some 40)]" by simp
  from 1 2 show ?thesis by blast
qed

theorem set_setpoint_absent_counterexample:
  "setpoint_reached (fst (set_setpoint
      (Control_init InfiniteGainControl (Some 90) 0 1 0 True :: unit control) None))
     = Some False"
  by (simp add: set_setpoint_def Control_set_setpoint_def reset_setpoint_reached_def
      Control_init_def)

section \<open>The fan follows the heater\<close>

lemma setpoint_after_set_setpoint: "setpoint (fst (set_setpoint c v)) = v"
  by (cases "variant c"; cases v)
     (auto simp: set_setpoint_def PIDControl_set_setpoint_def Control_set_setpoint_def
       reset_setpoint_reached_def split: option.splits variant.splits)

lemma set_setpoint_each_other:
  "a \<notin> set as \<Longrightarrow> fst (set_setpoint_each h as v) a = h a"
  by (induction as arbitrary: h) (auto simp: split_beta Let_def)

lemma set_setpoint_each_setpoint:
  "a \<in> set as \<Longrightarrow> setpoint (fst (set_setpoint_each h as v) a) = v"
proof (induction as arbitrary: h)
  case Nil
  then show ?case by simp
next
  case (Cons b bs)
  show ?case
  proof (cases "a \<in> set bs")
    case True
    then show ?thesis by (simp add: split_beta Let_def Cons.IH)
  next
    case False
    with Cons.prems have "a = b" by simp
    with False show ?thesis
      by (simp add: split_beta Let_def set_setpoint_each_other setpoint_after_set_setpoint)
  qed
qed

text \<open>
  Claim C4, as the code has it. \<^verbatim>\<open>HeaterFanController.set_setpoint(s)\<close> with \<open>s\<close> present
  leaves the fan control with the setpoint \<open>s + fan_setpoint_offset\<close>. With an absent
  setpoint the broadcast of \<^verbatim>\<open>Controller.set_setpoint\<close> reaches the fan control, which is
  one of the controls, so its setpoint becomes absent too; only the offset is skipped.
\<close>

theorem fan_setpoint_follows:
  "setpoint (fst (HeaterFanController_set_setpoint h ctl (Some s)) (fan_control ctl))
     = Some (s + fan_setpoint_offset ctl) \<and>
   (fan_control ctl \<in> set (controls ctl) \<longrightarrow>
      setpoint (fst (HeaterFanController_set_setpoint h ctl None) (fan_control ctl)) = None)"
  by (simp add: HeaterFanController_set_setpoint_def Controller_set_setpoint_def split_beta
      Let_def setpoint_after_set_setpoint set_setpoint_each_setpoint)

theorem fan_setpoint_follows_witness:
  "setpoint (fst (HeaterFanController_set_setpoint fresh_heap
       (HeaterFanController_init 0 0 1 1 (- 5) [] [] None None) (Some 90)) 1) = Some 85 \<and>
   setpoint (fst (HeaterFanController_set_setpoint fresh_heap
       (HeaterFanController_init 0 0 1 1 (- 5) [] [] None None) None) 1) = None"
proof -
  let ?ctl = "HeaterFanController_init 0 0 1 1 (- 5) [] [] None None"
  have f: "fan_control ?ctl = 1" "fan_setpoint_offset ?ctl = - 5"
    "fan_control ?ctl \<in> set (controls ?ctl)"
    by (simp_all add: HeaterFanController_init_def Controller_init_def Let_def)
  with fan_setpoint_follows[of fresh_heap ?ctl 90] show ?thesis by simp
qed

theorem fan_setpoint_absent_counterexample:
  "setpoint (fst (HeaterFanController_set_setpoint fresh_heap
       (HeaterFanController_init 0 0 1 1 (- 5) [] [] None None) (Some 90)) 1) = Some 85 \<and>
   setpoint (fst (HeaterFanController_set_setpoint
       (fst (HeaterFanController_set_setpoint fresh_heap
          (HeaterFanController_init 0 0 1 1 (- 5) [] [] None None) (Some 90)))
       (HeaterFanController_init 0 0 1 1 (- 5) [] [] None None) None) 1) = None"
  by (simp add: HeaterFanController_set_setpoint_def Controller_set_setpoint_def split_beta
      Let_def HeaterFanController_init_def Controller_init_def set_setpoint_def
      Control_set_setpoint_def reset_setpoint_reached_def fresh_heap_def Control_init_def)

section \<open>The spacing of records\<close>

lemma record_times_append: "record_times (xs @ ys) = record_times xs @ record_times ys"
  by (induction xs rule: record_times.induct) simp_all

lemma report_times:
  "report r t m sp reached efforts = Inr evs \<Longrightarrow> record_times evs = [t]"
  by (auto simp: report_def split: option.splits)

lemma arm_armed:
  "next_report_index r = Some i \<Longrightarrow> arm r now = Inr (r, [])"
  by (simp add: arm_def)

lemma arm_unarmed:
  assumes "next_report_index r = None" and "arm r now = Inr (r1, evs)"
  shows "record_times evs = [] \<and> next_report_index r1 = Some 0 \<and> start_time r1 = Some now \<and>
         interval r1 = interval r \<and> log_file r1 \<noteq> None"
  using assms
  by (auto simp: arm_def open_report_def generate_filename_def report_header_def
      split: if_splits sum.splits option.splits)

lemma arm_total:
  "reporter_ok r \<Longrightarrow> \<exists>r1 evs. arm r now = Inr (r1, evs) \<and> reporter_ok r1 \<and>
     next_report_index r1 \<noteq> None"
  by (auto simp: arm_def open_report_def generate_filename_def report_header_def reporter_ok_def
      split: if_splits sum.splits option.splits)

lemma update_armed:
  assumes "next_report_index r = Some i" and "start_time r = Some st"
    and "reporter_update r now pv sp reached efforts = Inr (r', evs)"
  shows "start_time r' = Some st \<and> interval r' = interval r \<and>
         ((record_times evs = [] \<and> next_report_index r' = Some i) \<or>
          (record_times evs = [now] \<and> of_int i * interval r + st \<le> now \<and>
           next_report_index r' = Some (i + 1)))"
  using assms
  by (auto simp: reporter_update_def arm_armed record_times_append
      split: if_splits sum.splits dest: report_times)

lemma update_unarmed:
  assumes "next_report_index r = None"
    and "reporter_update r now pv sp reached efforts = Inr (r', evs)"
  shows "(r' = r \<and> evs = []) \<or>
         (record_times evs = [now] \<and> start_time r' = Some now \<and>
          next_report_index r' = Some 1 \<and> interval r' = interval r)"
proof (cases "\<not> reporter_enabled r \<or> pv = None")
  case True
  with assms(2) show ?thesis by (auto simp: reporter_update_def)
next
  case False
  with assms(2) obtain r1 evs1 where a: "arm r now = Inr (r1, evs1)"
    by (auto simp: reporter_update_def split: sum.splits)
  from arm_unarmed[OF assms(1) a]
  have r1: "record_times evs1 = []" "next_report_index r1 = Some 0" "start_time r1 = Some now"
    "interval r1 = interval r" by simp_all
  with False a assms(2) show ?thesis
    by (auto simp: reporter_update_def record_times_append split: sum.splits dest: report_times)
qed

lemma update_at_most_one:
  assumes "reporter_update r now pv sp reached efforts = Inr (r', evs)"
  shows "length (record_times evs) \<le> 1"
proof (cases "next_report_index r")
  case None
  from update_unarmed[OF None assms] show ?thesis by auto
next
  case (Some i)
  show ?thesis
  proof (cases "start_time r")
    case None
    with Some assms show ?thesis
      by (auto simp: reporter_update_def arm_armed split: if_splits)
  next
    case (Some st)
    from update_armed[OF \<open>next_report_index r = Some i\<close> Some assms] show ?thesis by auto
  qed
qed

lemma run_armed:
  assumes "next_report_index r = Some i" and "start_time r = Some st"
    and "run_updates r calls = Inr (r', evs)"
  shows "\<forall>k < length (record_times evs).
           st + (of_int i + of_nat k) * interval r \<le> record_times evs ! k"
  using assms
proof (induction calls arbitrary: r i evs r')
  case Nil
  then show ?case by simp
next
  case (Cons call calls)
  obtain now pv sp reached efforts where call: "call = (now, pv, sp, reached, efforts)"
    by (cases call) auto
  from Cons.prems(3) call obtain r1 evs1 r2 evs2 where
    u: "reporter_update r now pv sp reached efforts = Inr (r1, evs1)" and
    rest: "run_updates r1 calls = Inr (r2, evs2)" and
    evs: "evs = evs1 @ evs2"
    by (auto split: sum.splits)
  from update_armed[OF Cons.prems(1) Cons.prems(2) u]
  have st1: "start_time r1 = Some st" and iv: "interval r1 = interval r" and
    alt: "(record_times evs1 = [] \<and> next_report_index r1 = Some i) \<or>
          (record_times evs1 = [now] \<and> of_int i * interval r + st \<le> now \<and>
           next_report_index r1 = Some (i + 1))" by simp_all
  from alt show ?case
  proof
    assume a: "record_times evs1 = [] \<and> next_report_index r1 = Some i"
    with Cons.IH[OF _ st1 rest, of i] iv evs show ?thesis
      by (simp add: record_times_append)
  next
    assume a: "record_times evs1 = [now] \<and> of_int i * interval r + st \<le> now \<and>
           next_report_index r1 = Some (i + 1)"
    with Cons.IH[OF _ st1 rest, of "i + 1"] iv
    have ih: "\<forall>k < length (record_times evs2).
           st + (of_int (i + 1) + of_nat k) * interval r \<le> record_times evs2 ! k" by simp
    show ?thesis
    proof (intro allI impI)
      fix k assume k: "k < length (record_times evs)"
      show "st + (of_int i + of_nat k) * interval r \<le> record_times evs ! k"
      proof (cases k)
        case 0
        with a evs show ?thesis by (simp add: record_times_append add.commute)
      next
        case (Suc j)
        with k a evs have "j < length (record_times evs2)" by (simp add: record_times_append)
        with ih have "st + (of_int (i + 1) + of_nat j) * interval r \<le> record_times evs2 ! j"
          by blast
        with Suc a evs show ?thesis by (simp add: record_times_append algebra_simps)
      qed
    qed
  qed
qed

lemma run_unarmed:
  assumes "next_report_index r = None" and "run_updates r calls = Inr (r', evs)"
  shows "\<forall>k < length (record_times evs).
           record_times evs ! 0 + of_nat k * interval r \<le> record_times evs ! k"
  using assms
proof (induction calls arbitrary: r evs r')
  case Nil
  then show ?case by simp
next
  case (Cons call calls)
  obtain now pv sp reached efforts where call: "call = (now, pv, sp, reached, efforts)"
    by (cases call) auto
  from Cons.prems(2) call obtain r1 evs1 r2 evs2 where
    u: "reporter_update r now pv sp reached efforts = Inr (r1, evs1)" and
    rest: "run_updates r1 calls = Inr (r2, evs2)" and
    evs: "evs = evs1 @ evs2"
    by (auto split: sum.splits)
  from update_unarmed[OF Cons.prems(1) u]
  show ?case
  proof
    assume "r1 = r \<and> evs1 = []"
    with Cons.IH[OF Cons.prems(1), of r2 evs2] rest evs show ?thesis by simp
  next
    assume a: "record_times evs1 = [now] \<and> start_time r1 = Some now \<and>
          next_report_index r1 = Some 1 \<and> interval r1 = interval r"
    then have "next_report_index r1 = Some 1" "start_time r1 = Some now" by simp_all
    from run_armed[OF this rest] a
    have ih: "\<forall>k < length (record_times evs2).
           now + (1 + of_nat k) * interval r \<le> record_times evs2 ! k" by simp
    show ?thesis
    proof (intro allI impI)
      fix k assume k: "k < length (record_times evs)"
      show "record_times evs ! 0 + of_nat k * interval r \<le> record_times evs ! k"
      proof (cases k)
        case 0
        then show ?thesis by simp
      next
        case (Suc j)
        with k a evs have "j < length (record_times evs2)" by (simp add: record_times_append)
        with ih have "now + (1 + of_nat j) * interval r \<le> record_times evs2 ! j" by blast
        with Suc a evs show ?thesis by (simp add: record_times_append algebra_simps)
      qed
    qed
  qed
qed

lemma update_total:
  assumes "reporter_ok r"
  shows "\<exists>r' evs. reporter_update r now pv sp reached efforts = Inr (r', evs) \<and> reporter_ok r'"
proof (cases "\<not> reporter_enabled r \<or> pv = None")
  case True
  with assms show ?thesis by (auto simp: reporter_update_def)
next
  case False
  from arm_total[OF assms, of now] obtain r1 evs1 where
    a: "arm r now = Inr (r1, evs1)" and ok: "reporter_ok r1" and i: "next_report_index r1 \<noteq> None"
    by blast
  from ok i obtain k st f where
    "next_report_index r1 = Some k" "start_time r1 = Some st" "log_file r1 = Some f"
    by (auto simp: reporter_ok_def split: option.splits)
  with False a show ?thesis
    by (auto simp: reporter_update_def report_def reporter_ok_def)
qed

lemma run_total:
  "reporter_ok r \<Longrightarrow> \<exists>r' evs. run_updates r calls = Inr (r', evs) \<and> reporter_ok r'"
proof (induction calls arbitrary: r)
  case Nil
  then show ?case by simp
next
  case (Cons call calls)
  obtain now pv sp reached efforts where call: "call = (now, pv, sp, reached, efforts)"
    by (cases call) auto
  from update_total[OF Cons.prems, of now pv sp reached efforts] obtain r1 evs1 where
    u: "reporter_update r now pv sp reached efforts = Inr (r1, evs1)" and ok: "reporter_ok r1"
    by blast
  from Cons.IH[OF ok] obtain r2 evs2 where "run_updates r1 calls = Inr (r2, evs2)"
    "reporter_ok r2" by blast
  with u call show ?case by simp
qed

text \<open>
  Claim C5, as the code has it. Every call of \<^verbatim>\<open>update\<close> on a reporter in a state its
  own methods produce returns and emits at most one record, and so does every sequence of
  calls. Records are gated to a grid: counted from the first accepted sample of a reporter
  that was not armed, the record number \<open>k\<close> has a \<^verbatim>\<open>report_time\<close> at least \<open>k\<close> intervals
  after that of record number 0. Two consecutive records can be closer than one interval:
  a record written late is followed by the next one as soon as the grid allows it.
\<close>

theorem records_on_the_grid:
  assumes "reporter_ok r"
  shows "(\<exists>r' evs. reporter_update r now pv sp reached efforts = Inr (r', evs) \<and>
            length (record_times evs) \<le> 1) \<and>
         (\<exists>r' evs. run_updates r calls = Inr (r', evs) \<and> emitted_times r calls = record_times evs) \<and>
         (next_report_index r = None \<longrightarrow>
            (\<forall>k < length (emitted_times r calls).
               emitted_times r calls ! 0 + of_nat k * interval r \<le> emitted_times r calls ! k))"
proof -
  from update_total[OF assms, of now pv sp reached efforts] obtain r1 evs1 where
    u: "reporter_update r now pv sp reached efforts = Inr (r1, evs1)" by blast
  from run_total[OF assms, of calls] obtain r2 evs2 where
    run: "run_updates r calls = Inr (r2, evs2)" by blast
  then have e: "emitted_times r calls = record_times evs2" by (simp add: emitted_times_def)
  from u update_at_most_one[OF u] have 1: "\<exists>r' evs. reporter_update r now pv sp reached efforts
     = Inr (r', evs) \<and> length (record_times evs) \<le> 1" by blast
  from run e have 2: "\<exists>r' evs. run_updates r calls = Inr (r', evs) \<and>
     emitted_times r calls = record_times evs" by blast
  have 3: "next_report_index r = None \<longrightarrow>
            (\<forall>k < length (emitted_times r calls).
               emitted_times r calls ! 0 + of_nat k * interval r \<le> emitted_times r calls ! k)"
    using run_unarmed[OF _ run] e by simp
  from 1 2 3 show ?thesis by blast
qed


theorem records_on_the_grid_witness:
  "emitted_times example_reporter
     (map sample_at [0, 1 / 10, 2 / 10, 3 / 10, 4 / 10, 5 / 10, 6 / 10, 7 / 10, 8 / 10, 9 / 10,
                     1, 11 / 10, 12 / 10]) = [0, 1 / 2, 1] \<and>
   0 + 2 * interval example_reporter \<le> 1"
proof -
  let ?calls = "map sample_at [0, 1 / 10, 2 / 10, 3 / 10, 4 / 10, 5 / 10, 6 / 10, 7 / 10, 8 / 10,
                     9 / 10, 1, 11 / 10, 12 / 10]"
  have ok: "reporter_ok example_reporter" and un: "next_report_index example_reporter = None"
    by (simp_all add: reporter_ok_def example_reporter_def reporter_enable_def
        ControllerReporter_init_def)
  have ts: "emitted_times example_reporter ?calls = [0, 1 / 2, 1]"
    by (simp add: emitted_times_def sample_at_def example_reporter_def reporter_enable_def
        ControllerReporter_init_def reporter_update_def arm_def open_report_def
        generate_filename_def report_header_def report_def)
  from records_on_the_grid[OF ok, of 0 None None None "[]" ?calls] un
  have "\<forall>k < length (emitted_times example_reporter ?calls).
               emitted_times example_reporter ?calls ! 0 + of_nat k * interval example_reporter
                 \<le> emitted_times example_reporter ?calls ! k" by blast
  then have "2 < length (emitted_times example_reporter ?calls) \<longrightarrow>
               emitted_times example_reporter ?calls ! 0 + of_nat 2 * interval example_reporter
                 \<le> emitted_times example_reporter ?calls ! 2" by blast
  with ts have "0 + 2 * interval example_reporter \<le> 1" by simp
  with ts show ?thesis by blast
qed

theorem records_closer_than_interval_counterexample:
  "emitted_times example_reporter [sample_at 0, sample_at (9 / 10), sample_at 1]
     = [0, 9 / 10, 1] \<and>
   \<not> interval example_reporter \<le> 1 - 9 / 10"
  by (simp add: emitted_times_def sample_at_def example_reporter_def reporter_enable_def
      ControllerReporter_init_def reporter_update_def arm_def open_report_def
      generate_filename_def report_header_def report_def)

section \<open>Enabling a reporter\<close>

lemma disabled_run:
  "\<not> reporter_enabled r \<Longrightarrow> run_updates r calls = Inr (r, [])"
  by (induction calls) (auto simp: reporter_update_def)

text \<open>
  Claim C10. A reporter is constructed disabled, so every sequence of \<^verbatim>\<open>update\<close> calls
  on it changes nothing and emits nothing; \<^verbatim>\<open>reset\<close> leaves the reporter enabled, also
  when \<^verbatim>\<open>disable\<close> was called before.
\<close>

theorem reporter_starts_disabled:
  "\<not> reporter_enabled (ControllerReporter_init iv pv units efforts prefix suffix) \<and>
   run_updates (ControllerReporter_init iv pv units efforts prefix suffix) calls
     = Inr (ControllerReporter_init iv pv units efforts prefix suffix, []) \<and>
   reporter_enabled (fst (reset r)) \<and>
   reporter_enabled (fst (reset (reporter_disable r)))"
proof -
  have d: "\<not> reporter_enabled (ControllerReporter_init iv pv units efforts prefix suffix)"
    by (simp add: ControllerReporter_init_def)
  have e: "reporter_enabled (fst (reset r'))" for r'
    by (simp add: reset_def close_report_def reporter_enable_def split_beta Let_def
        split: option.splits)
  from d disabled_run[OF d, of calls] e[of r] e[of "reporter_disable r"] show ?thesis by blast
qed

theorem reporter_starts_disabled_witness:
  "run_updates (ControllerReporter_init (1 / 2) ''Temperature'' ''deg C''
        [''Thermal Control Effort''] ''log_'' ''_run'') [sample_at 0, sample_at 1]
     = Inr (ControllerReporter_init (1 / 2) ''Temperature'' ''deg C''
        [''Thermal Control Effort''] ''log_'' ''_run'', []) \<and>
   reporter_enabled (fst (reset (reporter_disable example_reporter)))"
  using reporter_starts_disabled[of "1 / 2" "''Temperature''" "''deg C''"
      "[''Thermal Control Effort'']" "''log_''" "''_run''" "[sample_at 0, sample_at 1]"
      example_reporter]
  by blast

section \<open>The rendering of a record\<close>

text \<open>
  Claim C8, at the input where the code departs from it. A record with one effort, which
  is absent, has no field for it: the joined efforts are the empty string, and the source
  then leaves out the field and its comma, so the flag moves into the column the header
  names for the effort. With two absent efforts both fields are there and blank, and a
  present effort is rendered with two decimals.
\<close>

theorem single_absent_effort_loses_its_field:
  "report (example_reporter\<lparr>start_time := Some 100, log_file := Some Stdout\<rparr>)
      100 25 (Some 30) (Some False) [None]
     = Inr [Record_row Stdout 100 ''0.00,25.0,30.0,5.0,False''] \<and>
   header_string example_reporter =
     ''Time (s),Temperature (deg C),Setpoint (deg C),Error (deg C),Thermal Control Effort,Setpoint Reached'' \<and>
   report_string 0 25 (Some 30) (Some False) [None, None] = ''0.00,25.0,30.0,5.0,,,False'' \<and>
   report_string 0 25 (Some 30) (Some False) [Some (1 / 2)] = ''0.00,25.0,30.0,5.0,0.50,False''"
  by (simp add: example_reporter_def reporter_enable_def ControllerReporter_init_def report_def
      header_string_def report_string_def format_control_efforts_def format_f_def
      round_half_even_def Let_def)

section \<open>Thermistor readings\<close>

lemma read_resistance_result:
  "snd (read_resistance th ref raw) =
     (if ref - raw \<le> 0 then None else Some (raw * bias_resistance th / (ref - raw)))"
  by (simp add: read_resistance_def read_voltage_def)

lemma read_resistance_state:
  "fst (read_resistance th ref raw) = th\<lparr>reading := Some raw, referenced_reading := Some (ref - raw)\<rparr>"
  by (simp add: read_resistance_def read_voltage_def)

lemma denominator_after_reading:
  "steinhart_hart_denominator (th\<lparr>reading := a, referenced_reading := b\<rparr>) R
     = steinhart_hart_denominator th R"
  by (simp add: steinhart_hart_denominator_def)

lemma Thermistor_init_fields:
  "bias_resistance (Thermistor_init bias a b c) = bias"
  "coeff_A (Thermistor_init bias a b c) = a"
  "coeff_B (Thermistor_init bias a b c) = b"
  "coeff_C (Thermistor_init bias a b c) = c"
  by (simp_all add: Thermistor_init_def)

lemma scenario_denominator_positive:
  "0 < (10349722 / 10 ^ 10 :: real) + 22717988 / 10 ^ 11 * ln (3920 / 3)
       + 3008424 / 10 ^ 13 * (ln (3920 / 3)) ^ 3"
proof -
  have l: "0 < ln (3920 / 3 :: real)" by simp
  then have "0 < (ln (3920 / 3 :: real)) ^ 3" by simp
  with l show ?thesis by (intro add_pos_pos mult_pos_pos) simp_all
qed

text \<open>
  Claim C9, with Python floats read as real numbers. \<^verbatim>\<open>Thermistor.read\<close> in Celsius
  returns absent exactly when the referenced reading is not positive; otherwise the
  resistance is \<open>reading * bias_resistance / referenced_reading\<close>, and where the resistance
  is positive and the denominator of the Steinhart-Hart formula is not zero (so that no
  float is infinite or not a number) the temperature is
  \<open>1 / (A + B * ln R + C * (ln R) ^ 3) - 273.15\<close>.
\<close>

theorem thermistor_read_celsius:
  "(snd (Thermistor_read th ''C'' ref raw) = Inr None \<longleftrightarrow> ref - raw \<le> 0) \<and>
   (0 < ref - raw \<longrightarrow>
      snd (read_resistance th ref raw) = Some (raw * bias_resistance th / (ref - raw))) \<and>
   (0 < ref - raw \<and> R = raw * bias_resistance th / (ref - raw) \<and> 0 < R \<and>
    coeff_A th + coeff_B th * ln R + coeff_C th * (ln R) ^ 3 \<noteq> 0 \<longrightarrow>
      snd (Thermistor_read th ''C'' ref raw) =
        Inr (Some (Real_value
          (1 / (coeff_A th + coeff_B th * ln R + coeff_C th * (ln R) ^ 3) - 273.15))))"
proof -
  have split: "Thermistor_read th ''C'' ref raw =
      (fst (read_resistance th ref raw),
       case snd (read_resistance th ref raw) of
         None \<Rightarrow> Inr None
       | Some R' \<Rightarrow>
           Inr (Some (if R' > 0 \<and> steinhart_hart_denominator th R' \<noteq> 0
                      then Real_value (1 / steinhart_hart_denominator th R' - 273.15)
                      else Not_real)))"
    by (simp add: Thermistor_read_def split_beta Let_def read_resistance_state
        denominator_after_reading split: option.splits)
  have 1: "snd (Thermistor_read th ''C'' ref raw) = Inr None \<longleftrightarrow> ref - raw \<le> 0"
    by (simp add: split read_resistance_result)
  have 2: "0 < ref - raw \<longrightarrow>
      snd (read_resistance th ref raw) = Some (raw * bias_resistance th / (ref - raw))"
    by (simp add: read_resistance_result)
  have 3: "0 < ref - raw \<and> R = raw * bias_resistance th / (ref - raw) \<and> 0 < R \<and>
    coeff_A th + coeff_B th * ln R + coeff_C th * (ln R) ^ 3 \<noteq> 0 \<longrightarrow>
      snd (Thermistor_read th ''C'' ref raw) =
        Inr (Some (Real_value
          (1 / (coeff_A th + coeff_B th * ln R + coeff_C th * (ln R) ^ 3) - 273.15)))"
    by (simp add: split read_resistance_result steinhart_hart_denominator_def)
  from 1 2 3 show ?thesis by blast
qed

theorem thermistor_read_celsius_witness:
  "snd (read_resistance
          (Thermistor_init 1960 (10349722 / 10 ^ 10) (22717988 / 10 ^ 11) (3008424 / 10 ^ 13))
          1000 400) = Some (400 * 1960 / 600) \<and>
   snd (Thermistor_read
          (Thermistor_init 1960 (10349722 / 10 ^ 10) (22717988 / 10 ^ 11) (3008424 / 10 ^ 13))
          ''C'' 1000 400)
     = Inr (Some (Real_value
         (1 / (10349722 / 10 ^ 10 + 22717988 / 10 ^ 11 * ln (3920 / 3)
               + 3008424 / 10 ^ 13 * (ln (3920 / 3)) ^ 3) - 273.15))) \<and>
   snd (Thermistor_read
          (Thermistor_init 1960 (10349722 / 10 ^ 10) (22717988 / 10 ^ 11) (3008424 / 10 ^ 13))
          ''C'' 400 1000) = Inr None"
proof -
  let ?th = "Thermistor_init 1960 (10349722 / 10 ^ 10) (22717988 / 10 ^ 11) (3008424 / 10 ^ 13)"
  note f = Thermistor_init_fields
  have R: "(3920 / 3 :: real) = 400 * bias_resistance ?th / (1000 - 400)"
    by (simp add: f)
  have d: "coeff_A ?th + coeff_B ?th * ln (3920 / 3) + coeff_C ?th * (ln (3920 / 3)) ^ 3 \<noteq> 0"
    using scenario_denominator_positive by (simp add: f)
  note a = thermistor_read_celsius[of ?th 1000 400 "3920 / 3"]
  note b = thermistor_read_celsius[of ?th 400 1000 "3920 / 3"]
  from a have 1: "snd (read_resistance ?th 1000 400) = Some (400 * 1960 / 600)"
    by (simp add: f)
  from a R d have 2: "snd (Thermistor_read ?th ''C'' 1000 400)
     = Inr (Some (Real_value
         (1 / (coeff_A ?th + coeff_B ?th * ln (3920 / 3)
               + coeff_C ?th * (ln (3920 / 3)) ^ 3) - 273.15)))"
    by simp
  from b have 3: "snd (Thermistor_read ?th ''C'' 400 1000) = Inr None" by simp
  from 1 2 3 show ?thesis by (simp add: f)
qed

end
